theory Spec2Isabelle
  imports Main "HOL-Library.Extended_Nat"
begin

section \<open>Texts shown to the user\<close>

text \<open>
  The texts of \<^verbatim>\<open>src/pages/Profile/index.tsx\<close> are Portuguese literals. Only their
  identity matters here, so each literal is a constructor named after it (the literals
  are quoted below without their accents):
  \<^item> \<open>Nome_obrigatorio\<close>: 'Nome obrigatorio' (line 57)
  \<^item> \<open>E_mail_obrigatorio\<close>: 'E-mail obrigatorio' (line 59)
  \<^item> \<open>Digite_um_e_mail_valido\<close>: 'Digite um e-mail valido' (line 60)
  \<^item> \<open>Campo_obrigatorio\<close>: 'Campo obrigatorio' (lines 64 and 70)
  \<^item> \<open>Confirmacao_incorreta\<close>: 'Confirmacao incorreta' (line 73)
\<close>

datatype message =
    Nome_obrigatorio
  | E_mail_obrigatorio
  | Digite_um_e_mail_valido
  | Campo_obrigatorio
  | Confirmacao_incorreta

section \<open>The fragment of Yup used by the profile form\<close>

text \<open>
  Yup is a library, not code of this repository. The model covers the string schema with
  the methods the form calls (\<open>required\<close>, \<open>email\<close>, \<open>when\<close>, \<open>oneOf\<close>) and
  object validation with \<open>abortEarly: false\<close>, the only mode \<open>handleSubmit\<close> uses.
  It follows the library's documented behaviour and, for the order in which the tests of
  one field run, the \<open>_validate\<close> method of the 0.2x releases the application was
  written against.

  A JavaScript object is a lookup from keys to values; \<open>None\<close> is \<open>undefined\<close>.
  Every value of a \<open>ProfileFormData\<close> is a string, so values are \<open>string option\<close>.
\<close>

type_synonym js_object = "string \<Rightarrow> string option"

text \<open>An element of the list given to \<open>oneOf\<close>: \<open>Yup.ref(key)\<close> or the literal \<open>null\<close>.\<close>

datatype enum_item = Ref string | Null

datatype test = Test_required message | Test_email message

text \<open>
  A string schema: the \<open>oneOf\<close> whitelist with its message (if \<open>oneOf\<close> was called),
  the tests in the order they were added, and the pending \<open>when\<close> conditions.
  \<open>When key is_fn then_s otherwise_s\<close> is \<open>.when(key, {is, then, otherwise})\<close>.
\<close>

datatype yup_schema =
  StringSchema
    (whitelist: "(enum_item list \<times> message) option")
    (tests: "test list")
    (conditions: "condition list")
and condition =
  When string "string option \<Rightarrow> bool" yup_schema yup_schema

definition yup_string :: yup_schema where
  "yup_string = StringSchema None [] []"

definition yup_required :: "message \<Rightarrow> yup_schema \<Rightarrow> yup_schema" where
  "yup_required m s = StringSchema (whitelist s) (tests s @ [Test_required m]) (conditions s)"

definition yup_email :: "message \<Rightarrow> yup_schema \<Rightarrow> yup_schema" where
  "yup_email m s = StringSchema (whitelist s) (tests s @ [Test_email m]) (conditions s)"

definition yup_when ::
  "string \<Rightarrow> (string option \<Rightarrow> bool) \<Rightarrow> yup_schema \<Rightarrow> yup_schema \<Rightarrow> yup_schema \<Rightarrow> yup_schema" where
  "yup_when key is_fn then_s otherwise_s s =
     StringSchema (whitelist s) (tests s) (conditions s @ [When key is_fn then_s otherwise_s])"

definition yup_oneOf :: "enum_item list \<Rightarrow> message \<Rightarrow> yup_schema \<Rightarrow> yup_schema" where
  "yup_oneOf enums m s =
     StringSchema
       (Some (case whitelist s of None \<Rightarrow> enums | Some (old, _) \<Rightarrow> old @ enums, m))
       (tests s) (conditions s)"

text \<open>
  \<open>concat\<close>: the tests of the argument follow those of the receiver; the whitelists are
  merged and the argument's message wins where both have one.
\<close>

definition concat_schema :: "yup_schema \<Rightarrow> yup_schema \<Rightarrow> yup_schema" where
  "concat_schema a b =
     StringSchema
       (case (whitelist a, whitelist b) of
          (None, wb) \<Rightarrow> wb
        | (Some wa, None) \<Rightarrow> Some wa
        | (Some (ia, ma), Some (ib, mb)) \<Rightarrow> Some (ia @ ib, mb))
       (tests a @ tests b)
       (conditions a @ conditions b)"

text \<open>
  \<open>resolve\<close>: each condition reads the sibling named by its key in the parent object,
  picks a branch and concatenates the resolved branch onto the schema built so far.
\<close>

fun resolve :: "js_object \<Rightarrow> yup_schema \<Rightarrow> yup_schema"
  and resolve_conditions :: "js_object \<Rightarrow> yup_schema \<Rightarrow> condition list \<Rightarrow> yup_schema" where
  "resolve parent (StringSchema wl ts cs) = resolve_conditions parent (StringSchema wl ts []) cs"
| "resolve_conditions parent acc [] = acc"
| "resolve_conditions parent acc (When key is_fn then_s otherwise_s # cs) =
     (if is_fn (parent key)
      then resolve_conditions parent (concat_schema acc (resolve parent then_s)) cs
      else resolve_conditions parent (concat_schema acc (resolve parent otherwise_s)) cs)"

text \<open>\<open>valids.has(value, resolve)\<close>: a string is never \<open>null\<close>; a ref is read in the parent.\<close>

fun whitelist_has :: "js_object \<Rightarrow> enum_item list \<Rightarrow> string \<Rightarrow> bool" where
  "whitelist_has parent [] x = False"
| "whitelist_has parent (Null # items) x = whitelist_has parent items x"
| "whitelist_has parent (Ref key # items) x =
     (if parent key = Some x then True else whitelist_has parent items x)"

text \<open>
  The \<open>oneOf\<close> test passes on \<open>undefined\<close>. \<open>required\<close> on a string schema fails on
  \<open>undefined\<close> and on the empty string. \<open>email\<close> is \<open>matches\<close> with
  \<open>excludeEmptyString\<close>: it passes on \<open>undefined\<close> and on the empty string, and
  otherwise asks the library's regular expression, here the parameter \<open>rEmail\<close>.
\<close>

definition whitelistError :: "js_object \<Rightarrow> yup_schema \<Rightarrow> string option \<Rightarrow> message list" where
  "whitelistError parent s v =
     (case whitelist s of
        None \<Rightarrow> []
      | Some (items, m) \<Rightarrow>
          (case v of
             None \<Rightarrow> []
           | Some x \<Rightarrow> if whitelist_has parent items x then [] else [m]))"

fun run_test :: "(string \<Rightarrow> bool) \<Rightarrow> string option \<Rightarrow> test \<Rightarrow> message list" where
  "run_test rEmail v (Test_required m) =
     (case v of None \<Rightarrow> [m] | Some x \<Rightarrow> if x = [] then [m] else [])"
| "run_test rEmail v (Test_email m) =
     (case v of None \<Rightarrow> [] | Some x \<Rightarrow> if x = [] \<or> rEmail x then [] else [m])"

text \<open>
  Validation of one field: the schema is resolved against the parent; the \<open>oneOf\<close> test
  runs first and, when it fails, its error is the field's only error; otherwise every
  test runs and every failure is kept. Each error carries the field's path.
\<close>

definition validate_field ::
  "(string \<Rightarrow> bool) \<Rightarrow> js_object \<Rightarrow> string \<Rightarrow> yup_schema \<Rightarrow> (string \<times> message) list" where
  "validate_field rEmail parent path s =
     (let r = resolve parent s;
          v = parent path;
          initial = whitelistError parent r v
      in map (Pair path)
           (if initial \<noteq> [] then initial
            else concat (map (run_test rEmail v) (tests r))))"

text \<open>
  \<open>Yup.object().shape(fields)\<close> keeps the fields and computes the order in which they
  are validated, \<open>_nodes\<close>, with \<open>sortFields\<close>. The dependencies of a field are the
  keys of its \<open>when\<close> calls (a ref given to \<open>oneOf\<close> is not one). The keys here are
  plain names, so the first segment of a dependency path is the key itself.
\<close>

fun condition_key :: "condition \<Rightarrow> string" where
  "condition_key (When key is_fn then_s otherwise_s) = key"

definition deps :: "yup_schema \<Rightarrow> string list" where
  "deps s = map condition_key (conditions s)"

text \<open>
  The \<open>toposort\<close> package. \<open>visit\<close> is its inner function: \<open>None\<close> is the thrown
  error (a cyclic dependency or an unknown node). The children of a node are visited
  from the last edge to the first, and a node is written in front of the nodes finished
  before it (the array is filled from its end). A child met twice is already visited the
  second time, so the edges need not be made unique.
\<close>

definition outgoing :: "(string \<times> string) list \<Rightarrow> string \<Rightarrow> string list" where
  "outgoing edges node = map snd (filter (\<lambda>edge. fst edge = node) edges)"

function visit ::
  "(string \<times> string) list \<Rightarrow> string list \<Rightarrow> string \<Rightarrow> string list \<Rightarrow>
   string list \<times> string list \<Rightarrow> (string list \<times> string list) option"
  and visit_children ::
  "(string \<times> string) list \<Rightarrow> string list \<Rightarrow> string list \<Rightarrow> string list \<Rightarrow>
   string list \<times> string list \<Rightarrow> (string list \<times> string list) option" where
  "visit edges nodes node predecessors (visited, result) =
     (if node \<in> set predecessors then None
      else if node \<notin> set nodes then None
      else if node \<in> set visited then Some (visited, result)
      else
        (case visit_children edges nodes (rev (outgoing edges node)) (node # predecessors)
                (node # visited, result) of
           None \<Rightarrow> None
         | Some (visited', result') \<Rightarrow> Some (visited', node # result')))"
| "visit_children edges nodes [] predecessors st = Some st"
| "visit_children edges nodes (child # rest) predecessors st =
     (case visit edges nodes child predecessors st of
        None \<Rightarrow> None
      | Some st' \<Rightarrow> visit_children edges nodes rest predecessors st')"
  by pat_completeness auto
termination
proof (relation "measures
    [\<lambda>x. case x of
        Inl (edges, nodes, node, predecessors, st) \<Rightarrow> card (set nodes - set predecessors)
      | Inr (edges, nodes, children, predecessors, st) \<Rightarrow> card (set nodes - set predecessors),
     \<lambda>x. case x of
        Inl (edges, nodes, node, predecessors, st) \<Rightarrow> 0
      | Inr (edges, nodes, children, predecessors, st) \<Rightarrow> Suc (length children)]")
  fix nodes :: "string list" and node :: string and predecessors :: "string list"
    and edges :: "(string \<times> string) list" and visited result :: "string list"
  assume a: "node \<notin> set predecessors" "\<not> node \<notin> set nodes"
  have "set nodes - set (node # predecessors) \<subset> set nodes - set predecessors"
    using a by auto
  then have "card (set nodes - set (node # predecessors)) < card (set nodes - set predecessors)"
    by (simp add: psubset_card_mono)
  then show "(Inr (edges, nodes, rev (outgoing edges node), node # predecessors, node # visited, result),
        Inl (edges, nodes, node, predecessors, visited, result))
       \<in> measures
    [\<lambda>x. case x of
        Inl (edges, nodes, node, predecessors, st) \<Rightarrow> card (set nodes - set predecessors)
      | Inr (edges, nodes, children, predecessors, st) \<Rightarrow> card (set nodes - set predecessors),
     \<lambda>x. case x of
        Inl (edges, nodes, node, predecessors, st) \<Rightarrow> 0
      | Inr (edges, nodes, children, predecessors, st) \<Rightarrow> Suc (length children)]"
    by simp
qed auto

text \<open>The outer loop starts a visit at every node, from the last node to the first.\<close>

definition toposort :: "string list \<Rightarrow> (string \<times> string) list \<Rightarrow> string list option" where
  "toposort nodes edges = map_option snd (visit_children edges nodes (rev nodes) [] ([], []))"

text \<open>
  \<open>sortFields\<close>: every field is a node, in the order written, followed by those of its
  dependencies that are new; every dependency is an edge from the field. The result is
  the reversed topological order.
\<close>

definition addNode ::
  "string \<Rightarrow> string list \<times> (string \<times> string) list \<Rightarrow> string \<Rightarrow>
   string list \<times> (string \<times> string) list" where
  "addNode key acc depPath =
     (if depPath \<in> set (fst acc) then fst acc else fst acc @ [depPath],
      snd acc @ [(key, depPath)])"

definition sortFields :: "(string \<times> yup_schema) list \<Rightarrow> string list option" where
  "sortFields fields =
     (let acc = foldl (\<lambda>acc (key, value).
                   foldl (addNode key)
                     (if key \<in> set (fst acc) then fst acc else fst acc @ [key], snd acc)
                     (deps value))
                 ([], []) fields
      in map_option rev (toposort (fst acc) (snd acc)))"

text \<open>
  An object schema. \<open>shape\<close> throws when the dependencies are cyclic; the schema keeps
  that outcome as \<open>None\<close> and \<open>validate\<close> raises it. In \<open>handleSubmit\<close> the two calls
  follow each other inside the same \<open>try\<close>, so nothing tells the two moments apart.
\<close>

record object_schema =
  object_fields :: "(string \<times> yup_schema) list"
  object_nodes :: "string list option"

definition yup_object_shape :: "(string \<times> yup_schema) list \<Rightarrow> object_schema" where
  "yup_object_shape shape =
     \<lparr>object_fields = shape, object_nodes = sortFields shape\<rparr>"

text \<open>
  What the handler can catch: a \<open>Yup.ValidationError\<close> with its \<open>inner\<close> errors, the
  rejection of a request, or another \<open>Error\<close>.
\<close>

datatype exn =
    ValidationError (inner: "(string \<times> message) list")
  | RequestError string
  | Error

text \<open>
  \<open>sortByKeyOrder\<close>: the errors of the fields are sorted by the index of the first key,
  in the order the fields are written, that occurs in the error's path as a substring
  (\<open>err.path.indexOf(key) !== -1\<close>); with no such key the index is \<open>Infinity\<close>.
\<close>

fun has_substring :: "string \<Rightarrow> string \<Rightarrow> bool" where
  "has_substring [] key = (key = [])"
| "has_substring (c # cs) key = (take (length key) (c # cs) = key \<or> has_substring cs key)"

fun findIndex_from :: "nat \<Rightarrow> string list \<Rightarrow> string \<Rightarrow> enat" where
  "findIndex_from ii [] path = \<infinity>"
| "findIndex_from ii (key # keys) path =
     (if has_substring path key then enat ii else findIndex_from (Suc ii) keys path)"

definition findIndex :: "string list \<Rightarrow> string \<Rightarrow> enat" where
  "findIndex keys path = findIndex_from 0 keys path"

text \<open>
  \<open>schema.validate(data, {abortEarly: false})\<close>: the fields are validated in the order
  of \<open>_nodes\<close>; the fields that failed are sorted by \<open>sortByKeyOrder\<close> (the sort is
  stable: fields with the same index stay in the order of \<open>_nodes\<close>) and their errors are
  flattened into \<open>inner\<close> of one \<open>ValidationError\<close>. With no error the promise resolves
  with the value.
\<close>

definition validate :: "(string \<Rightarrow> bool) \<Rightarrow> object_schema \<Rightarrow> js_object \<Rightarrow> exn + js_object" where
  "validate rEmail s data =
     (case object_nodes s of
        None \<Rightarrow> Inl Error
      | Some keys \<Rightarrow>
          (let results =
                 map (\<lambda>key. (key,
                        case map_of (object_fields s) key of
                          None \<Rightarrow> []
                        | Some field \<Rightarrow> validate_field rEmail data key field))
                   keys;
               rejected = filter (\<lambda>r. snd r \<noteq> []) results;
               nestedErrors =
                 sort_key (\<lambda>r. findIndex (map fst (object_fields s)) (fst r)) rejected;
               errors = concat (map snd nestedErrors)
           in if errors = [] then Inr data else Inl (ValidationError errors)))"

section \<open>The profile form\<close>

record ProfileFormData =
  name :: string
  email :: string
  old_password :: string
  password :: string
  password_confirmation :: string

text \<open>The form data as the object Yup reads by key.\<close>

definition as_object :: "ProfileFormData \<Rightarrow> js_object" where
  "as_object data key =
     (if key = ''name'' then Some (name data)
      else if key = ''email'' then Some (email data)
      else if key = ''old_password'' then Some (old_password data)
      else if key = ''password'' then Some (password data)
      else if key = ''password_confirmation'' then Some (password_confirmation data)
      else None)"

text \<open>\<open>(val) => !!val\<close>: \<open>undefined\<close> and the empty string are falsy.\<close>

definition truthy :: "string option \<Rightarrow> bool" where
  "truthy val = (case val of None \<Rightarrow> False | Some x \<Rightarrow> x \<noteq> [])"

text \<open>The schema of \<open>handleSubmit\<close> (lines 56 to 74), field by field as written.\<close>

definition schema :: object_schema where
  "schema = yup_object_shape
     [(''name'', yup_required Nome_obrigatorio yup_string),
      (''email'',
         yup_email Digite_um_e_mail_valido (yup_required E_mail_obrigatorio yup_string)),
      (''old_password'', yup_string),
      (''password'',
         yup_when ''old_password'' truthy
           (yup_required Campo_obrigatorio yup_string) yup_string yup_string),
      (''password_confirmation'',
         yup_oneOf [Ref ''password'', Null] Confirmacao_incorreta
           (yup_when ''old_password'' truthy
              (yup_required Campo_obrigatorio yup_string) yup_string yup_string))]"

section \<open>The world the screen acts on\<close>

text \<open>
  The notifications of \<open>Alert.alert\<close>, one constructor per call site:
  \<^item> \<open>Perfil_atualizado\<close>: line 102, profile updated
  \<^item> \<open>Erro_na_atualizacao\<close>: line 117, the generic failure of the profile update
  \<^item> \<open>Permissao_necessaria p\<close>: lines 189, 198 and 207, permission \<open>p\<close> is needed
  \<^item> \<open>Erro_ao_atualizar_seu_avatar\<close>: line 230, the chooser reported an error
  \<^item> \<open>Erro_ao_atualizar_o_seu_avatar e\<close>: line 250, the upload failed with detail \<open>e\<close>
\<close>

datatype permission = CAMERA | READ_EXTERNAL_STORAGE | WRITE_EXTERNAL_STORAGE

datatype permission_status = GRANTED | DENIED | NEVER_ASK_AGAIN

datatype alert =
    Perfil_atualizado
  | Erro_na_atualizacao
  | Permissao_necessaria permission
  | Erro_ao_atualizar_seu_avatar
  | Erro_ao_atualizar_o_seu_avatar string

text \<open>The part \<open>{type, name: fileName, uri}\<close> appended to the multipart body.\<close>

record avatar_part =
  part_type :: "string option"
  part_name :: "string option"
  part_uri :: "string option"

text \<open>
  Every call the screen makes to a collaborator, in the order it is made. The type
  \<open>'u\<close> is the user record, which the screen never looks into.
\<close>

datatype 'u effect =
    PermissionsAndroid_check permission
  | PermissionsAndroid_request permission
  | Alert_alert alert
  | ImagePicker_showImagePicker
  | Api_put string "(string \<times> string) list"
  | Api_patch string "(string \<times> avatar_part) list"
  | UpdateUser 'u
  | GoBack

record 'u world =
  session_user :: 'u
  form_errors :: "string \<Rightarrow> message option"
  trace :: "'u effect list"

definition perform :: "'u effect \<Rightarrow> 'u world \<Rightarrow> 'u world" where
  "perform e w = w\<lparr>trace := trace w @ [e]\<rparr>"

text \<open>
  Modelled from the spec: \<open>updateUser\<close> of the session store (\<open>hooks/auth\<close>, not among
  the sources). The spec: "exposes \<open>updateUser(userRecord) -> void\<close>, asynchronous,
  replaces the current user wholesale".
\<close>

definition updateUser :: "'u \<Rightarrow> 'u world \<Rightarrow> 'u world" where
  "updateUser u w = (perform (UpdateUser u) w)\<lparr>session_user := u\<rparr>"

text \<open>
  Modelled from the spec: \<open>getValidationErrors\<close> (\<open>utils/getValidationErrors\<close>, not
  among the sources). The spec: "field-level error messages are attached to the form for
  display, keyed by field name". Each inner error is stored under its path.
\<close>

definition getValidationErrors :: "(string \<times> message) list \<Rightarrow> (string \<Rightarrow> message option)" where
  "getValidationErrors errs = foldl (\<lambda>acc (path, m). acc(path \<mapsto> m)) Map.empty errs"

definition setErrors :: "(string \<Rightarrow> message option) \<Rightarrow> 'u world \<Rightarrow> 'u world" where
  "setErrors errors w = w\<lparr>form_errors := errors\<rparr>"

section \<open>handleSubmit\<close>

text \<open>
  \<open>formData\<close> (lines 86 to 96): \<open>name\<close> and \<open>email\<close>, and the three password fields
  spread in when \<open>old_password\<close> is truthy, that is, not the empty string.
\<close>

definition formData :: "ProfileFormData \<Rightarrow> (string \<times> string) list" where
  "formData data =
     [(''name'', name data), (''email'', email data)] @
     (if old_password data \<noteq> []
      then [(''old_password'', old_password data),
            (''password'', password data),
            (''password_confirmation'', password_confirmation data)]
      else [])"

text \<open>
  The body of the \<open>try\<close> block (lines 54 to 107). The result is the exception thrown,
  if any, with the world as it is at that moment. \<open>put\<close> is \<open>api.put\<close>: \<open>Inl\<close> is
  a rejected request, \<open>Inr\<close> is \<open>response.data\<close>.
\<close>

definition handleSubmit_try ::
  "(string \<Rightarrow> bool) \<Rightarrow> (string \<Rightarrow> (string \<times> string) list \<Rightarrow> string + 'u) \<Rightarrow>
   ProfileFormData \<Rightarrow> 'u world \<Rightarrow> exn option \<times> 'u world" where
  "handleSubmit_try rEmail put data w =
     (let w1 = setErrors Map.empty w in
      case validate rEmail schema (as_object data) of
        Inl err \<Rightarrow> (Some err, w1)
      | Inr _ \<Rightarrow>
          (let w2 = perform (Api_put ''/profile'' (formData data)) w1
           in case put ''/profile'' (formData data) of
                Inl e \<Rightarrow> (Some (RequestError e), w2)
              | Inr response_data \<Rightarrow>
                  (None,
                   perform GoBack
                     (perform (Alert_alert Perfil_atualizado)
                        (updateUser response_data w2)))))"

text \<open>The whole handler: the \<open>catch\<close> block (lines 108 to 121) around the body.\<close>

definition handleSubmit ::
  "(string \<Rightarrow> bool) \<Rightarrow> (string \<Rightarrow> (string \<times> string) list \<Rightarrow> string + 'u) \<Rightarrow>
   ProfileFormData \<Rightarrow> 'u world \<Rightarrow> 'u world" where
  "handleSubmit rEmail put data w =
     (case handleSubmit_try rEmail put data w of
        (None, w') \<Rightarrow> w'
      | (Some (ValidationError errs), w') \<Rightarrow> setErrors (getValidationErrors errs) w'
      | (Some (RequestError e), w') \<Rightarrow> perform (Alert_alert Erro_na_atualizacao) w'
      | (Some Error, w') \<Rightarrow> perform (Alert_alert Erro_na_atualizacao) w')"

section \<open>handleUpdateAvatar\<close>

text \<open>The response the image chooser hands to the callback (the fields the callback reads).\<close>

record image_picker_response =
  didCancel :: bool
  error :: "string option"
  type :: "string option"
  uri :: "string option"
  fileName :: "string option"

text \<open>
  What the platform answers during one run: the operating system, the answer of
  \<open>PermissionsAndroid.check\<close> and of \<open>PermissionsAndroid.request\<close> for each permission,
  the chooser's response, and the outcome of \<open>api.patch\<close> (\<open>Inl\<close> is a rejected request,
  \<open>Inr\<close> is \<open>apiResponse.data\<close>). Each permission is checked and requested at most once
  in a run, so one answer per permission describes every run. The promises of
  \<open>check\<close> and \<open>request\<close> are taken to resolve: the handler has no \<open>catch\<close> for them.

  A run is followed to its end: the chooser's callback and the promise of \<open>api.patch\<close>
  are run where the handler starts them.
\<close>

record 'u platform =
  Platform_OS :: string
  check :: "permission \<Rightarrow> bool"
  request :: "permission \<Rightarrow> permission_status"
  response :: image_picker_response
  patch :: "string \<Rightarrow> (string \<times> avatar_part) list \<Rightarrow> string + 'u"

definition requestCameraPermissions :: "'u platform \<Rightarrow> 'u world \<Rightarrow> bool \<times> 'u world" where
  "requestCameraPermissions env w =
     (let w1 = perform (PermissionsAndroid_check CAMERA) w;
          hasCameraPermission = check env CAMERA
      in if \<not> hasCameraPermission
         then (let w2 = perform (PermissionsAndroid_request CAMERA) w1;
                   requestResult = request env CAMERA
               in (requestResult = GRANTED, w2))
         else (True, w1))"

definition requestReadStoragePermissions :: "'u platform \<Rightarrow> 'u world \<Rightarrow> bool \<times> 'u world" where
  "requestReadStoragePermissions env w =
     (let w1 = perform (PermissionsAndroid_check READ_EXTERNAL_STORAGE) w;
          hasReadStoragePermission = check env READ_EXTERNAL_STORAGE
      in if \<not> hasReadStoragePermission
         then (let w2 = perform (PermissionsAndroid_request READ_EXTERNAL_STORAGE) w1;
                   requestResult = request env READ_EXTERNAL_STORAGE
               in (requestResult = GRANTED, w2))
         else (True, w1))"

definition requestWriteStoragePermissions :: "'u platform \<Rightarrow> 'u world \<Rightarrow> bool \<times> 'u world" where
  "requestWriteStoragePermissions env w =
     (let w1 = perform (PermissionsAndroid_check WRITE_EXTERNAL_STORAGE) w;
          hasWriteStoragePermission = check env WRITE_EXTERNAL_STORAGE
      in if \<not> hasWriteStoragePermission
         then (let w2 = perform (PermissionsAndroid_request WRITE_EXTERNAL_STORAGE) w1;
                   requestResult = request env WRITE_EXTERNAL_STORAGE
               in (requestResult = GRANTED, w2))
         else (True, w1))"

text \<open>The multipart body built from the chooser's response (lines 234 to 242).\<close>

definition avatar_body :: "image_picker_response \<Rightarrow> (string \<times> avatar_part) list" where
  "avatar_body r =
     [(''avatar'', \<lparr>part_type = type r, part_name = fileName r, part_uri = uri r\<rparr>)]"

text \<open>The callback given to the chooser (lines 226 to 255).\<close>

definition showImagePicker_callback :: "'u platform \<Rightarrow> 'u world \<Rightarrow> 'u world" where
  "showImagePicker_callback env w =
     (if didCancel (response env) then w
      else if truthy (error (response env))
      then perform (Alert_alert Erro_ao_atualizar_seu_avatar) w
      else
        (let data = avatar_body (response env);
             w1 = perform (Api_patch ''/users/avatar'' data) w
         in case patch env ''/users/avatar'' data of
              Inr apiResponse_data \<Rightarrow> updateUser apiResponse_data w1
            | Inl err \<Rightarrow> perform (Alert_alert (Erro_ao_atualizar_o_seu_avatar err)) w1))"

definition showImagePicker :: "'u platform \<Rightarrow> 'u world \<Rightarrow> 'u world" where
  "showImagePicker env w = showImagePicker_callback env (perform ImagePicker_showImagePicker w)"

text \<open>
  The handler (lines 182 to 256): on Android the three permission helpers run one after
  the other, and only then are their results looked at.
\<close>

definition handleUpdateAvatar :: "'u platform \<Rightarrow> 'u world \<Rightarrow> 'u world" where
  "handleUpdateAvatar env w =
     (if Platform_OS env = ''android''
      then
        (let (cameraPermissionGranted, w1) = requestCameraPermissions env w;
             (readStoragePermissionGranted, w2) = requestReadStoragePermissions env w1;
             (writeStoragePermissionGranted, w3) = requestWriteStoragePermissions env w2
         in if \<not> cameraPermissionGranted
            then perform (Alert_alert (Permissao_necessaria CAMERA)) w3
            else if \<not> readStoragePermissionGranted
            then perform (Alert_alert (Permissao_necessaria READ_EXTERNAL_STORAGE)) w3
            else if \<not> writeStoragePermissionGranted
            then perform (Alert_alert (Permissao_necessaria WRITE_EXTERNAL_STORAGE)) w3
            else showImagePicker env w3)
      else showImagePicker env w)"

section \<open>Vocabulary of the properties\<close>

text \<open>A permission is granted in a run when it is already held or the request grants it.\<close>

definition granted :: "'u platform \<Rightarrow> permission \<Rightarrow> bool" where
  "granted env p = (check env p \<or> request env p = GRANTED)"

text \<open>What one permission helper does: the check, then the request if the check said no.\<close>

definition permission_effects :: "'u platform \<Rightarrow> permission \<Rightarrow> 'u effect list" where
  "permission_effects env p =
     PermissionsAndroid_check p #
     (if check env p then [] else [PermissionsAndroid_request p])"

text \<open>The effects a handler adds to the trace of the world it starts in.\<close>

definition new_effects :: "'u world \<Rightarrow> 'u world \<Rightarrow> 'u effect list" where
  "new_effects w w' = drop (length (trace w)) (trace w')"

fun is_permission_effect :: "'u effect \<Rightarrow> bool" where
  "is_permission_effect (PermissionsAndroid_check p) = True"
| "is_permission_effect (PermissionsAndroid_request p) = True"
| "is_permission_effect e = False"

fun is_alert :: "'u effect \<Rightarrow> bool" where
  "is_alert (Alert_alert a) = True"
| "is_alert e = False"

fun is_network_call :: "'u effect \<Rightarrow> bool" where
  "is_network_call (Api_put path body) = True"
| "is_network_call (Api_patch path body) = True"
| "is_network_call e = False"

fun is_updateUser :: "'u effect \<Rightarrow> bool" where
  "is_updateUser (UpdateUser u) = True"
| "is_updateUser e = False"

text \<open>
  The errors the schema yields for a form, written out rule by rule and in the order
  of \<open>inner\<close>; \<open>validate_schema\<close> below proves that this is what \<open>validate\<close> computes
  on \<open>schema\<close>.
\<close>

definition profile_errors :: "(string \<Rightarrow> bool) \<Rightarrow> ProfileFormData \<Rightarrow> (string \<times> message) list" where
  "profile_errors rEmail d =
     (if name d = [] then [(''name'', Nome_obrigatorio)] else []) @
     (if email d = [] then [(''email'', E_mail_obrigatorio)]
      else if rEmail (email d) then [] else [(''email'', Digite_um_e_mail_valido)]) @
     (if password_confirmation d \<noteq> password d
      then [(''password_confirmation'', Confirmacao_incorreta)]
      else if old_password d \<noteq> [] \<and> password_confirmation d = []
      then [(''password_confirmation'', Campo_obrigatorio)] else []) @
     (if old_password d \<noteq> [] \<and> password d = [] then [(''password'', Campo_obrigatorio)] else [])"

text \<open>The world after the three permission helpers have run, whatever they answered.\<close>

definition asked :: "'u platform \<Rightarrow> 'u world \<Rightarrow> 'u world" where
  "asked env w =
     w\<lparr>trace := trace w @ permission_effects env CAMERA @
          permission_effects env READ_EXTERNAL_STORAGE @
          permission_effects env WRITE_EXTERNAL_STORAGE\<rparr>"

text \<open>What the chooser and its callback add, by the four outcomes of the callback.\<close>

definition chooser_effects :: "'u platform \<Rightarrow> 'u effect list" where
  "chooser_effects env =
     ImagePicker_showImagePicker #
     (if didCancel (response env) then []
      else if truthy (error (response env)) then [Alert_alert Erro_ao_atualizar_seu_avatar]
      else Api_patch ''/users/avatar'' (avatar_body (response env)) #
        (case patch env ''/users/avatar'' (avatar_body (response env)) of
           Inr u \<Rightarrow> [UpdateUser u]
         | Inl err \<Rightarrow> [Alert_alert (Erro_ao_atualizar_o_seu_avatar err)]))"

section \<open>Sample runs\<close>

text \<open>
  Concrete inputs on which the theorems below are evaluated. \<open>contains_at\<close> stands in
  for the library's e-mail expression in these runs only: the addresses used contain an
  at sign when they are meant to be valid and none when they are not.
\<close>

type_synonym sample_user = "(string \<times> string) list"

definition contains_at :: "string \<Rightarrow> bool" where
  "contains_at x = (CHR ''@'' \<in> set x)"

definition user0 :: sample_user where
  "user0 = [(''id'', ''u1''), (''name'', ''Bia''), (''avatar_url'', ''http://x/a.png'')]"

definition user1 :: sample_user where
  "user1 = [(''id'', ''u1''), (''name'', ''Ana''), (''email'', ''a@x.com'')]"

definition world0 :: "sample_user world" where
  "world0 = \<lparr>session_user = user0, form_errors = Map.empty, trace = []\<rparr>"


definition put_ok :: "string \<Rightarrow> (string \<times> string) list \<Rightarrow> string + sample_user" where
  "put_ok path body = Inr user1"

definition put_rejected :: "string \<Rightarrow> (string \<times> string) list \<Rightarrow> string + sample_user" where
  "put_rejected path body = Inl ''Network Error''"

definition ana :: ProfileFormData where
  "ana = \<lparr>name = ''Ana'', email = ''a@x.com'', old_password = [], password = [],
          password_confirmation = []\<rparr>"

definition ana_new_password :: ProfileFormData where
  "ana_new_password = ana\<lparr>old_password := ''old'', password := ''new'', password_confirmation := ''new''\<rparr>"

definition ana_mismatch :: ProfileFormData where
  "ana_mismatch = ana\<lparr>old_password := ''old'', password := ''new'', password_confirmation := ''nwe''\<rparr>"

definition ana_confirmation_only :: ProfileFormData where
  "ana_confirmation_only = ana\<lparr>password_confirmation := ''abc''\<rparr>"

definition all_invalid :: ProfileFormData where
  "all_invalid = \<lparr>name = [], email = ''ana'', old_password = ''old'', password = [],
                  password_confirmation = ''abc''\<rparr>"

text \<open>
  Runs of the avatar flow: an Android device that holds the camera permission only and
  refuses every request, one that grants every request, and a device of the other platform whose chooser returns a
  photo, is cancelled or fails, or whose upload is rejected.
\<close>

definition photo :: image_picker_response where
  "photo = \<lparr>didCancel = False, error = None, type = Some ''image/jpeg'',
            uri = Some ''file:///tmp/a.jpg'', fileName = Some ''a.jpg''\<rparr>"

definition user2 :: sample_user where
  "user2 = [(''id'', ''u1''), (''avatar_url'', ''http://x/b.png'')]"

definition patch_ok :: "string \<Rightarrow> (string \<times> avatar_part) list \<Rightarrow> string + sample_user" where
  "patch_ok path body = Inr user2"

definition patch_rejected :: "string \<Rightarrow> (string \<times> avatar_part) list \<Rightarrow> string + sample_user" where
  "patch_rejected path body = Inl ''Network Error''"

definition only_camera_held :: "permission \<Rightarrow> bool" where
  "only_camera_held p = (p = CAMERA)"

definition always_denied :: "permission \<Rightarrow> permission_status" where
  "always_denied p = DENIED"

definition android_read_denied :: "sample_user platform" where
  "android_read_denied =
     \<lparr>Platform_OS = ''android'', check = only_camera_held, request = always_denied,
      response = photo, patch = patch_ok\<rparr>"

definition always_granted :: "permission \<Rightarrow> permission_status" where
  "always_granted p = GRANTED"

definition android_all_granted :: "sample_user platform" where
  "android_all_granted =
     \<lparr>Platform_OS = ''android'', check = only_camera_held, request = always_granted,
      response = photo, patch = patch_ok\<rparr>"

definition ios_photo :: "sample_user platform" where
  "ios_photo =
     \<lparr>Platform_OS = ''ios'', check = only_camera_held, request = always_denied,
      response = photo, patch = patch_ok\<rparr>"

definition ios_cancelled :: "sample_user platform" where
  "ios_cancelled = ios_photo\<lparr>response := photo\<lparr>didCancel := True\<rparr>\<rparr>"

definition ios_chooser_error :: "sample_user platform" where
  "ios_chooser_error = ios_photo\<lparr>response := photo\<lparr>error := Some ''Camera not available''\<rparr>\<rparr>"

definition ios_patch_rejected :: "sample_user platform" where
  "ios_patch_rejected = ios_photo\<lparr>patch := patch_rejected\<rparr>"

section \<open>Basic facts\<close>

lemmas avatar_sample_defs = photo_def user2_def patch_ok_def patch_rejected_def
  only_camera_held_def always_denied_def android_read_denied_def ios_photo_def
  always_granted_def android_all_granted_def
  ios_cancelled_def ios_chooser_error_def ios_patch_rejected_def world0_def user0_def

lemmas sample_defs = contains_at_def user0_def user1_def world0_def put_ok_def put_rejected_def
  ana_def ana_new_password_def ana_mismatch_def ana_confirmation_only_def all_invalid_def

lemma trace_perform [simp]: "trace (perform e w) = trace w @ [e]"
  by (simp add: perform_def)

lemma session_user_perform [simp]: "session_user (perform e w) = session_user w"
  by (simp add: perform_def)

lemma form_errors_perform [simp]: "form_errors (perform e w) = form_errors w"
  by (simp add: perform_def)

lemma trace_updateUser [simp]: "trace (updateUser u w) = trace w @ [UpdateUser u]"
  by (simp add: updateUser_def)

lemma session_user_updateUser [simp]: "session_user (updateUser u w) = u"
  by (simp add: updateUser_def)

lemma form_errors_updateUser [simp]: "form_errors (updateUser u w) = form_errors w"
  by (simp add: updateUser_def)

lemma trace_setErrors [simp]: "trace (setErrors errs w) = trace w"
  by (simp add: setErrors_def)

lemma session_user_setErrors [simp]: "session_user (setErrors errs w) = session_user w"
  by (simp add: setErrors_def)

lemma form_errors_setErrors [simp]: "form_errors (setErrors errs w) = errs"
  by (simp add: setErrors_def)

lemma new_effects_append [simp]: "trace w' = trace w @ es \<Longrightarrow> new_effects w w' = es"
  by (simp add: new_effects_def)

lemmas yup_defs = validate_field_def whitelistError_def yup_required_def yup_email_def
  yup_when_def yup_oneOf_def yup_string_def concat_schema_def truthy_def

lemma field_name:
  "validate_field rEmail (as_object d) ''name'' (yup_required Nome_obrigatorio yup_string) =
     (if name d = [] then [(''name'', Nome_obrigatorio)] else [])"
  by (simp add: yup_defs as_object_def)

lemma field_email:
  "validate_field rEmail (as_object d) ''email''
     (yup_email Digite_um_e_mail_valido (yup_required E_mail_obrigatorio yup_string)) =
     (if email d = [] then [(''email'', E_mail_obrigatorio)]
      else if rEmail (email d) then [] else [(''email'', Digite_um_e_mail_valido)])"
  by (simp add: yup_defs as_object_def)

lemma field_old_password:
  "validate_field rEmail (as_object d) ''old_password'' yup_string = []"
  by (simp add: yup_defs as_object_def)

lemma field_password:
  "validate_field rEmail (as_object d) ''password''
     (yup_when ''old_password'' truthy
        (yup_required Campo_obrigatorio yup_string) yup_string yup_string) =
     (if old_password d \<noteq> [] \<and> password d = [] then [(''password'', Campo_obrigatorio)] else [])"
  by (simp add: yup_defs as_object_def)

lemma field_password_confirmation:
  "validate_field rEmail (as_object d) ''password_confirmation''
     (yup_oneOf [Ref ''password'', Null] Confirmacao_incorreta
        (yup_when ''old_password'' truthy
           (yup_required Campo_obrigatorio yup_string) yup_string yup_string)) =
     (if password_confirmation d \<noteq> password d
      then [(''password_confirmation'', Confirmacao_incorreta)]
      else if old_password d \<noteq> [] \<and> password_confirmation d = []
      then [(''password_confirmation'', Campo_obrigatorio)] else [])"
  by (auto simp add: yup_defs as_object_def)


lemma schema_fields:
  "object_fields schema =
     [(''name'', yup_required Nome_obrigatorio yup_string),
      (''email'',
         yup_email Digite_um_e_mail_valido (yup_required E_mail_obrigatorio yup_string)),
      (''old_password'', yup_string),
      (''password'',
         yup_when ''old_password'' truthy
           (yup_required Campo_obrigatorio yup_string) yup_string yup_string),
      (''password_confirmation'',
         yup_oneOf [Ref ''password'', Null] Confirmacao_incorreta
           (yup_when ''old_password'' truthy
              (yup_required Campo_obrigatorio yup_string) yup_string yup_string))]"
  by (simp add: schema_def yup_object_shape_def)

lemma schema_nodes:
  "object_nodes schema =
     Some [''old_password'', ''password_confirmation'', ''password'', ''email'', ''name'']"
  by (simp add: schema_def yup_object_shape_def sortFields_def toposort_def outgoing_def
      addNode_def deps_def yup_when_def yup_oneOf_def yup_required_def yup_email_def
      yup_string_def)

lemma schema_findIndex:
  "findIndex [''name'', ''email'', ''old_password'', ''password'', ''password_confirmation'']
     ''name'' = enat 0"
  "findIndex [''name'', ''email'', ''old_password'', ''password'', ''password_confirmation'']
     ''email'' = enat 1"
  "findIndex [''name'', ''email'', ''old_password'', ''password'', ''password_confirmation'']
     ''old_password'' = enat 2"
  "findIndex [''name'', ''email'', ''old_password'', ''password'', ''password_confirmation'']
     ''password'' = enat 3"
  "findIndex [''name'', ''email'', ''old_password'', ''password'', ''password_confirmation'']
     ''password_confirmation'' = enat 3"
  by (simp_all add: findIndex_def)

lemma validate_schema:
  "validate rEmail schema (as_object d) =
     (if profile_errors rEmail d = [] then Inr (as_object d)
      else Inl (ValidationError (profile_errors rEmail d)))"
proof -
  let ?keys = "[''name'', ''email'', ''old_password'', ''password'', ''password_confirmation'']"
  let ?name = "validate_field rEmail (as_object d) ''name''
     (yup_required Nome_obrigatorio yup_string)"
  let ?email = "validate_field rEmail (as_object d) ''email''
     (yup_email Digite_um_e_mail_valido (yup_required E_mail_obrigatorio yup_string))"
  let ?password = "validate_field rEmail (as_object d) ''password''
     (yup_when ''old_password'' truthy
        (yup_required Campo_obrigatorio yup_string) yup_string yup_string)"
  let ?confirmation = "validate_field rEmail (as_object d) ''password_confirmation''
     (yup_oneOf [Ref ''password'', Null] Confirmacao_incorreta
        (yup_when ''old_password'' truthy
           (yup_required Campo_obrigatorio yup_string) yup_string yup_string))"
  let ?results = "[(''old_password'', []), (''password_confirmation'', ?confirmation),
     (''password'', ?password), (''email'', ?email), (''name'', ?name)]"
  have sorted_results: "sort_key (\<lambda>r. findIndex ?keys (fst r)) ?results =
      [(''name'', ?name), (''email'', ?email), (''old_password'', []),
       (''password_confirmation'', ?confirmation), (''password'', ?password)]"
    by (simp add: schema_findIndex)
  have "concat (map snd (sort_key (\<lambda>r. findIndex ?keys (fst r))
          (filter (\<lambda>r. snd r \<noteq> []) ?results))) =
        concat (map snd (filter (\<lambda>r. snd r \<noteq> [])
          (sort_key (\<lambda>r. findIndex ?keys (fst r)) ?results)))"
    by (simp only: filter_sort)
  also have "\<dots> = ?name @ ?email @ ?confirmation @ ?password"
    unfolding sorted_results by simp
  also have "\<dots> = profile_errors rEmail d"
    by (simp only: field_name field_email field_password field_password_confirmation
        profile_errors_def)
  finally have errors: "concat (map snd (sort_key (\<lambda>r. findIndex ?keys (fst r))
          (filter (\<lambda>r. snd r \<noteq> []) ?results))) = profile_errors rEmail d" .
  have results: "map (\<lambda>key. (key,
           case map_of (object_fields schema) key of
             None \<Rightarrow> []
           | Some field \<Rightarrow> validate_field rEmail (as_object d) key field))
         [''old_password'', ''password_confirmation'', ''password'', ''email'', ''name''] =
       ?results"
    by (simp add: schema_fields field_old_password)
  have keys: "map fst (object_fields schema) = ?keys"
    by (simp add: schema_fields)
  show ?thesis
    unfolding validate_def schema_nodes option.case Let_def results keys errors ..
qed

lemma handleSubmit_invalid:
  "profile_errors rEmail d \<noteq> [] \<Longrightarrow>
   handleSubmit rEmail put d w = setErrors (getValidationErrors (profile_errors rEmail d)) w"
  by (simp add: handleSubmit_def handleSubmit_try_def validate_schema setErrors_def)

lemma handleSubmit_rejected:
  "profile_errors rEmail d = [] \<Longrightarrow> put ''/profile'' (formData d) = Inl e \<Longrightarrow>
   handleSubmit rEmail put d w =
     perform (Alert_alert Erro_na_atualizacao)
       (perform (Api_put ''/profile'' (formData d)) (setErrors Map.empty w))"
  by (simp add: handleSubmit_def handleSubmit_try_def validate_schema)

lemma handleSubmit_ok:
  "profile_errors rEmail d = [] \<Longrightarrow> put ''/profile'' (formData d) = Inr u \<Longrightarrow>
   handleSubmit rEmail put d w =
     perform GoBack (perform (Alert_alert Perfil_atualizado)
       (updateUser u (perform (Api_put ''/profile'' (formData d)) (setErrors Map.empty w))))"
  by (simp add: handleSubmit_def handleSubmit_try_def validate_schema)

lemma validate_Inr_iff:
  "(validate rEmail schema (as_object d) = Inr v) \<longleftrightarrow> (profile_errors rEmail d = [] \<and> v = as_object d)"
  by (auto simp add: validate_schema)

lemma getValidationErrors_profile:
  "getValidationErrors (profile_errors rEmail d) key =
     (if key = ''name'' then (if name d = [] then Some Nome_obrigatorio else None)
      else if key = ''email'' then
        (if email d = [] then Some E_mail_obrigatorio
         else if rEmail (email d) then None else Some Digite_um_e_mail_valido)
      else if key = ''password'' then
        (if old_password d \<noteq> [] \<and> password d = [] then Some Campo_obrigatorio else None)
      else if key = ''password_confirmation'' then
        (if password_confirmation d \<noteq> password d then Some Confirmacao_incorreta
         else if old_password d \<noteq> [] \<and> password_confirmation d = []
         then Some Campo_obrigatorio else None)
      else None)"
  by (simp add: getValidationErrors_def profile_errors_def)


lemma form_errors_handleSubmit:
  "form_errors (handleSubmit rEmail put data w) = getValidationErrors (profile_errors rEmail data)"
proof (cases "profile_errors rEmail data = []")
  case True
  then show ?thesis
    by (cases "put ''/profile'' (formData data)")
      (simp_all add: handleSubmit_ok handleSubmit_rejected getValidationErrors_def)
next
  case False
  then show ?thesis by (simp add: handleSubmit_invalid)
qed

lemma requestCameraPermissions_eq:
  "requestCameraPermissions env w =
     (granted env CAMERA, w\<lparr>trace := trace w @ permission_effects env CAMERA\<rparr>)"
  by (simp add: requestCameraPermissions_def granted_def permission_effects_def perform_def Let_def)

lemma requestReadStoragePermissions_eq:
  "requestReadStoragePermissions env w =
     (granted env READ_EXTERNAL_STORAGE,
      w\<lparr>trace := trace w @ permission_effects env READ_EXTERNAL_STORAGE\<rparr>)"
  by (simp add: requestReadStoragePermissions_def granted_def permission_effects_def
      perform_def Let_def)

lemma requestWriteStoragePermissions_eq:
  "requestWriteStoragePermissions env w =
     (granted env WRITE_EXTERNAL_STORAGE,
      w\<lparr>trace := trace w @ permission_effects env WRITE_EXTERNAL_STORAGE\<rparr>)"
  by (simp add: requestWriteStoragePermissions_def granted_def permission_effects_def
      perform_def Let_def)

lemma handleUpdateAvatar_android:
  "Platform_OS env = ''android'' \<Longrightarrow>
   handleUpdateAvatar env w =
     (if \<not> granted env CAMERA
      then perform (Alert_alert (Permissao_necessaria CAMERA)) (asked env w)
      else if \<not> granted env READ_EXTERNAL_STORAGE
      then perform (Alert_alert (Permissao_necessaria READ_EXTERNAL_STORAGE)) (asked env w)
      else if \<not> granted env WRITE_EXTERNAL_STORAGE
      then perform (Alert_alert (Permissao_necessaria WRITE_EXTERNAL_STORAGE)) (asked env w)
      else showImagePicker env (asked env w))"
  by (simp add: handleUpdateAvatar_def requestCameraPermissions_eq
      requestReadStoragePermissions_eq requestWriteStoragePermissions_eq asked_def)

lemma handleUpdateAvatar_other:
  "Platform_OS env \<noteq> ''android'' \<Longrightarrow> handleUpdateAvatar env w = showImagePicker env w"
  by (simp add: handleUpdateAvatar_def)

lemma trace_asked [simp]:
  "trace (asked env w) = trace w @ permission_effects env CAMERA @
     permission_effects env READ_EXTERNAL_STORAGE @ permission_effects env WRITE_EXTERNAL_STORAGE"
  by (simp add: asked_def)

lemma session_user_asked [simp]: "session_user (asked env w) = session_user w"
  by (simp add: asked_def)

lemma trace_showImagePicker [simp]:
  "trace (showImagePicker env w) = trace w @ chooser_effects env"
  by (simp add: showImagePicker_def showImagePicker_callback_def chooser_effects_def Let_def
      split: sum.split)

lemma session_user_showImagePicker:
  "session_user (showImagePicker env w) =
     (if didCancel (response env) \<or> truthy (error (response env)) then session_user w
      else case patch env ''/users/avatar'' (avatar_body (response env)) of
             Inr u \<Rightarrow> u | Inl err \<Rightarrow> session_user w)"
  by (simp add: showImagePicker_def showImagePicker_callback_def Let_def split: sum.split)

lemma new_effects_android:
  "Platform_OS env = ''android'' \<Longrightarrow>
   new_effects w (handleUpdateAvatar env w) =
     permission_effects env CAMERA @ permission_effects env READ_EXTERNAL_STORAGE @
     permission_effects env WRITE_EXTERNAL_STORAGE @
     (if \<not> granted env CAMERA then [Alert_alert (Permissao_necessaria CAMERA)]
      else if \<not> granted env READ_EXTERNAL_STORAGE
      then [Alert_alert (Permissao_necessaria READ_EXTERNAL_STORAGE)]
      else if \<not> granted env WRITE_EXTERNAL_STORAGE
      then [Alert_alert (Permissao_necessaria WRITE_EXTERNAL_STORAGE)]
      else chooser_effects env)"
  by (simp add: handleUpdateAvatar_android new_effects_def)

lemma new_effects_other:
  "Platform_OS env \<noteq> ''android'' \<Longrightarrow>
   new_effects w (handleUpdateAvatar env w) = chooser_effects env"
  by (simp add: handleUpdateAvatar_other new_effects_def)

lemma filter_permission_effects [simp]:
  "filter is_alert (permission_effects env p) = []"
  "filter is_network_call (permission_effects env p) = []"
  "filter is_updateUser (permission_effects env p) = []"
  by (simp_all add: permission_effects_def)

lemma picker_not_in_permission_effects [simp]:
  "ImagePicker_showImagePicker \<notin> set (permission_effects env p)"
  by (simp add: permission_effects_def)

lemma session_user_handleUpdateAvatar:
  "session_user (handleUpdateAvatar env w) =
     (if Platform_OS env = ''android'' \<and>
         \<not> (granted env CAMERA \<and> granted env READ_EXTERNAL_STORAGE \<and>
            granted env WRITE_EXTERNAL_STORAGE)
      then session_user w
      else session_user (showImagePicker env w))"
  by (cases "Platform_OS env = ''android''")
    (auto simp add: handleUpdateAvatar_android handleUpdateAvatar_other
      session_user_showImagePicker split: sum.split)

lemma avatar_upload_success:
  assumes "Platform_OS env = ''android'' \<longrightarrow>
             granted env CAMERA \<and> granted env READ_EXTERNAL_STORAGE \<and>
             granted env WRITE_EXTERNAL_STORAGE"
    and "\<not> didCancel (response env)" and "\<not> truthy (error (response env))"
    and "patch env ''/users/avatar'' (avatar_body (response env)) = Inr u"
  shows "filter is_updateUser (new_effects w (handleUpdateAvatar env w)) = [UpdateUser u] \<and>
         session_user (handleUpdateAvatar env w) = u"
proof (cases "Platform_OS env = ''android''")
  case True
  with assms show ?thesis
    by (simp add: new_effects_android chooser_effects_def session_user_handleUpdateAvatar
        session_user_showImagePicker)
next
  case False
  with assms show ?thesis
    by (simp add: new_effects_other chooser_effects_def session_user_handleUpdateAvatar
        session_user_showImagePicker)
qed

section \<open>The payload of a profile submission\<close>

text \<open>
  Claim C2. For every form that passes validation, the submission makes exactly one
  network call, \<open>api.put\<close> on \<open>/profile\<close>; its body has exactly the fields \<open>name\<close> and
  \<open>email\<close> when \<open>old_password\<close> is empty, and exactly \<open>name\<close>, \<open>email\<close>,
  \<open>old_password\<close>, \<open>password\<close> and \<open>password_confirmation\<close> otherwise.
\<close>

theorem payload_fields:
  assumes "validate rEmail schema (as_object data) = Inr v"
  shows "filter is_network_call (new_effects w (handleSubmit rEmail put data w)) =
           [Api_put ''/profile''
              (if old_password data = []
               then [(''name'', name data), (''email'', email data)]
               else [(''name'', name data), (''email'', email data),
                     (''old_password'', old_password data),
                     (''password'', password data),
                     (''password_confirmation'', password_confirmation data)])]"
proof -
  from assms have ok: "profile_errors rEmail data = []"
    by (simp add: validate_Inr_iff)
  show ?thesis
  proof (cases "put ''/profile'' (formData data)")
    case (Inl e)
    with ok show ?thesis
      by (simp add: handleSubmit_rejected new_effects_def formData_def)
  next
    case (Inr u)
    with ok show ?thesis
      by (simp add: handleSubmit_ok new_effects_def formData_def)
  qed
qed

text \<open>The theorem at a form without and at a form with a password change.\<close>

theorem payload_fields_witness:
  "validate contains_at schema (as_object ana) = Inr (as_object ana) \<and>
   filter is_network_call (new_effects world0 (handleSubmit contains_at put_ok ana world0)) =
     [Api_put ''/profile'' [(''name'', ''Ana''), (''email'', ''a@x.com'')]] \<and>
   validate contains_at schema (as_object ana_new_password) = Inr (as_object ana_new_password) \<and>
   filter is_network_call
     (new_effects world0 (handleSubmit contains_at put_rejected ana_new_password world0)) =
     [Api_put ''/profile''
        [(''name'', ''Ana''), (''email'', ''a@x.com''), (''old_password'', ''old''),
         (''password'', ''new''), (''password_confirmation'', ''new'')]]"
proof -
  have a: "validate contains_at schema (as_object ana) = Inr (as_object ana)"
    by (simp add: validate_schema profile_errors_def sample_defs)
  have b: "validate contains_at schema (as_object ana_new_password) = Inr (as_object ana_new_password)"
    by (simp add: validate_schema profile_errors_def sample_defs)
  show ?thesis
    using a b payload_fields [OF a, of world0 put_ok] payload_fields [OF b, of world0 put_rejected]
    by (simp add: sample_defs)
qed


section \<open>Validation of the profile form\<close>

text \<open>
  Claim C3. For every form whose \<open>old_password\<close> is not empty and whose \<open>password\<close>
  differs from \<open>password_confirmation\<close>, validation fails with an error list that holds
  the confirmation mismatch for \<open>password_confirmation\<close>, that message is the one the form
  shows on the field, and the handler makes no call at all, so no request is sent.
\<close>

theorem confirmation_mismatch:
  assumes "old_password data \<noteq> []"
    and "password data \<noteq> password_confirmation data"
  shows "(\<exists>errs. validate rEmail schema (as_object data) = Inl (ValidationError errs) \<and>
            (''password_confirmation'', Confirmacao_incorreta) \<in> set errs) \<and>
         form_errors (handleSubmit rEmail put data w) ''password_confirmation'' =
           Some Confirmacao_incorreta \<and>
         new_effects w (handleSubmit rEmail put data w) = []"
proof -
  from assms(2) have mem: "(''password_confirmation'', Confirmacao_incorreta) \<in> set (profile_errors rEmail data)"
    by (simp add: profile_errors_def)
  then have ne: "profile_errors rEmail data \<noteq> []"
    by auto
  from ne mem have "\<exists>errs. validate rEmail schema (as_object data) = Inl (ValidationError errs) \<and>
            (''password_confirmation'', Confirmacao_incorreta) \<in> set errs"
    by (simp add: validate_schema)
  moreover from assms(2) ne
  have "form_errors (handleSubmit rEmail put data w) ''password_confirmation'' =
           Some Confirmacao_incorreta"
    by (simp add: handleSubmit_invalid getValidationErrors_profile)
  moreover from ne have "new_effects w (handleSubmit rEmail put data w) = []"
    by (simp add: handleSubmit_invalid)
  ultimately show ?thesis by blast
qed

text \<open>The theorem at a form whose confirmation has two letters swapped.\<close>

theorem confirmation_mismatch_witness:
  "old_password ana_mismatch \<noteq> [] \<and>
   password ana_mismatch \<noteq> password_confirmation ana_mismatch \<and>
   validate contains_at schema (as_object ana_mismatch) =
     Inl (ValidationError [(''password_confirmation'', Confirmacao_incorreta)]) \<and>
   form_errors (handleSubmit contains_at put_ok ana_mismatch world0) ''password_confirmation'' =
     Some Confirmacao_incorreta \<and>
   new_effects world0 (handleSubmit contains_at put_ok ana_mismatch world0) = []"
proof -
  have a: "old_password ana_mismatch \<noteq> []"
    by (simp add: sample_defs)
  have b: "password ana_mismatch \<noteq> password_confirmation ana_mismatch"
    by (simp add: sample_defs)
  have c: "validate contains_at schema (as_object ana_mismatch) =
     Inl (ValidationError [(''password_confirmation'', Confirmacao_incorreta)])"
    by (simp add: validate_schema profile_errors_def sample_defs)
  show ?thesis
    using a b c
      confirmation_mismatch [where data = ana_mismatch and rEmail = contains_at
        and put = put_ok and w = world0]
    by simp
qed

text \<open>
  Claim C4, as stated: with valid \<open>name\<close> and \<open>email\<close> and with \<open>old_password\<close> and
  \<open>password\<close> both empty, validation succeeds for every \<open>password_confirmation\<close>.
  The \<open>oneOf\<close> call of line 73 sits outside the \<open>when\<close>, so it applies to every
  form: at the confirmation \<open>abc\<close> validation fails with the mismatch error.
\<close>

theorem confirmation_without_password_change_counterexample:
  "name ana_confirmation_only \<noteq> [] \<and> contains_at (email ana_confirmation_only) \<and>
   old_password ana_confirmation_only = [] \<and> password ana_confirmation_only = [] \<and>
   validate contains_at schema (as_object ana_confirmation_only) =
     Inl (ValidationError [(''password_confirmation'', Confirmacao_incorreta)])"
  by (simp add: validate_schema profile_errors_def sample_defs)

text \<open>
  Claim C4, amended. For every form with valid \<open>name\<close> and \<open>email\<close> and an empty
  \<open>old_password\<close>, neither \<open>password\<close> nor \<open>password_confirmation\<close> is required, but
  the two must still be equal: validation succeeds exactly when they are, and otherwise
  fails with the confirmation mismatch on \<open>password_confirmation\<close> as its only error.
\<close>

theorem confirmation_without_password_change:
  assumes "name data \<noteq> []" and "email data \<noteq> []" and "rEmail (email data)"
    and "old_password data = []"
  shows "validate rEmail schema (as_object data) =
           (if password_confirmation data = password data then Inr (as_object data)
            else Inl (ValidationError [(''password_confirmation'', Confirmacao_incorreta)]))"
  using assms by (simp add: validate_schema profile_errors_def)

text \<open>The theorem at a form with equal and at a form with different password fields.\<close>

theorem confirmation_without_password_change_witness:
  "name ana \<noteq> [] \<and> email ana \<noteq> [] \<and> contains_at (email ana) \<and> old_password ana = [] \<and>
   validate contains_at schema (as_object ana) = Inr (as_object ana) \<and>
   name ana_confirmation_only \<noteq> [] \<and> email ana_confirmation_only \<noteq> [] \<and>
   contains_at (email ana_confirmation_only) \<and> old_password ana_confirmation_only = [] \<and>
   validate contains_at schema (as_object ana_confirmation_only) =
     Inl (ValidationError [(''password_confirmation'', Confirmacao_incorreta)])"
proof -
  have a: "name ana \<noteq> []" "email ana \<noteq> []" "contains_at (email ana)" "old_password ana = []"
    by (simp_all add: sample_defs)
  have b: "name ana_confirmation_only \<noteq> []" "email ana_confirmation_only \<noteq> []"
    "contains_at (email ana_confirmation_only)" "old_password ana_confirmation_only = []"
    by (simp_all add: sample_defs)
  have c: "password_confirmation ana = password ana"
    "password_confirmation ana_confirmation_only \<noteq> password ana_confirmation_only"
    by (simp_all add: sample_defs)
  show ?thesis
    using a b c
      confirmation_without_password_change [where data = ana and rEmail = contains_at]
      confirmation_without_password_change
        [where data = ana_confirmation_only and rEmail = contains_at]
    by simp
qed

text \<open>
  Claim C7. Validation gathers the errors of all fields: after the handler, each field of
  the form carries the message of its own rules, whatever the other fields hold. In
  particular an empty \<open>name\<close> always makes validation fail with the required-field error
  on \<open>name\<close>, and then the handler makes no call.
\<close>

theorem all_errors_collected:
  "form_errors (handleSubmit rEmail put data w) ''name'' =
     (if name data = [] then Some Nome_obrigatorio else None) \<and>
   form_errors (handleSubmit rEmail put data w) ''email'' =
     (if email data = [] then Some E_mail_obrigatorio
      else if rEmail (email data) then None else Some Digite_um_e_mail_valido) \<and>
   form_errors (handleSubmit rEmail put data w) ''old_password'' = None \<and>
   form_errors (handleSubmit rEmail put data w) ''password'' =
     (if old_password data \<noteq> [] \<and> password data = [] then Some Campo_obrigatorio else None) \<and>
   form_errors (handleSubmit rEmail put data w) ''password_confirmation'' =
     (if password_confirmation data \<noteq> password data then Some Confirmacao_incorreta
      else if old_password data \<noteq> [] \<and> password_confirmation data = []
      then Some Campo_obrigatorio else None) \<and>
   (name data = [] \<longrightarrow>
      (\<exists>errs. validate rEmail schema (as_object data) = Inl (ValidationError errs) \<and>
         (''name'', Nome_obrigatorio) \<in> set errs) \<and>
      new_effects w (handleSubmit rEmail put data w) = [])"
proof -
  have "name data = [] \<Longrightarrow> (''name'', Nome_obrigatorio) \<in> set (profile_errors rEmail data)"
    by (simp add: profile_errors_def)
  moreover have "name data = [] \<Longrightarrow> profile_errors rEmail data \<noteq> []"
    by (simp add: profile_errors_def)
  ultimately have last: "name data = [] \<longrightarrow>
      (\<exists>errs. validate rEmail schema (as_object data) = Inl (ValidationError errs) \<and>
         (''name'', Nome_obrigatorio) \<in> set errs) \<and>
      new_effects w (handleSubmit rEmail put data w) = []"
    by (simp add: validate_schema handleSubmit_invalid)
  show ?thesis
    using last by (simp add: form_errors_handleSubmit getValidationErrors_profile)
qed

text \<open>The theorem at a form in which four fields are invalid at once.\<close>

theorem all_errors_collected_witness:
  "name all_invalid = [] \<and>
   validate contains_at schema (as_object all_invalid) =
     Inl (ValidationError
       [(''name'', Nome_obrigatorio), (''email'', Digite_um_e_mail_valido),
        (''password_confirmation'', Confirmacao_incorreta), (''password'', Campo_obrigatorio)]) \<and>
   form_errors (handleSubmit contains_at put_ok all_invalid world0) ''name'' =
     Some Nome_obrigatorio \<and>
   form_errors (handleSubmit contains_at put_ok all_invalid world0) ''email'' =
     Some Digite_um_e_mail_valido \<and>
   form_errors (handleSubmit contains_at put_ok all_invalid world0) ''password'' =
     Some Campo_obrigatorio \<and>
   form_errors (handleSubmit contains_at put_ok all_invalid world0) ''password_confirmation'' =
     Some Confirmacao_incorreta \<and>
   new_effects world0 (handleSubmit contains_at put_ok all_invalid world0) = []"
proof -
  have a: "name all_invalid = []" "email all_invalid = ''ana''" "old_password all_invalid = ''old''"
    "password all_invalid = []" "password_confirmation all_invalid = ''abc''"
    by (simp_all add: all_invalid_def)
  have b: "validate contains_at schema (as_object all_invalid) =
     Inl (ValidationError
       [(''name'', Nome_obrigatorio), (''email'', Digite_um_e_mail_valido),
        (''password_confirmation'', Confirmacao_incorreta), (''password'', Campo_obrigatorio)])"
    by (simp add: validate_schema profile_errors_def a contains_at_def)
  show ?thesis
    using a b all_errors_collected [of contains_at put_ok all_invalid world0]
    by (simp add: contains_at_def)
qed

section \<open>The outcome of a profile submission\<close>

text \<open>
  Claim C5. When validation passes and \<open>api.put\<close> on \<open>/profile\<close> answers with a user
  record, the session user is that record afterwards (\<open>updateUser\<close> replaces it), and
  the handler has, in this order, sent the request, called \<open>updateUser\<close> with the record,
  shown the success notification and navigated back.
\<close>

theorem profile_success:
  assumes "validate rEmail schema (as_object data) = Inr v"
    and "put ''/profile'' (formData data) = Inr u"
  shows "session_user (handleSubmit rEmail put data w) = u \<and>
         new_effects w (handleSubmit rEmail put data w) =
           [Api_put ''/profile'' (formData data), UpdateUser u,
            Alert_alert Perfil_atualizado, GoBack]"
proof -
  from assms(1) have "profile_errors rEmail data = []"
    by (simp add: validate_Inr_iff)
  with assms(2) show ?thesis
    by (simp add: handleSubmit_ok new_effects_def)
qed

text \<open>
  The theorem at the spec's example: the session user before has an \<open>avatar_url\<close> and no
  \<open>email\<close>; afterwards it is the returned record and nothing of the old one is left.
\<close>

theorem profile_success_witness:
  "validate contains_at schema (as_object ana) = Inr (as_object ana) \<and>
   put_ok ''/profile'' (formData ana) = Inr user1 \<and>
   session_user world0 = user0 \<and>
   session_user (handleSubmit contains_at put_ok ana world0) =
     [(''id'', ''u1''), (''name'', ''Ana''), (''email'', ''a@x.com'')] \<and>
   new_effects world0 (handleSubmit contains_at put_ok ana world0) =
     [Api_put ''/profile'' [(''name'', ''Ana''), (''email'', ''a@x.com'')], UpdateUser user1,
      Alert_alert Perfil_atualizado, GoBack]"
proof -
  have a: "validate contains_at schema (as_object ana) = Inr (as_object ana)"
    by (simp add: validate_schema profile_errors_def sample_defs)
  have b: "put_ok ''/profile'' (formData ana) = Inr user1"
    by (simp add: put_ok_def)
  have c: "formData ana = [(''name'', ''Ana''), (''email'', ''a@x.com'')]"
    by (simp add: formData_def ana_def)
  show ?thesis
    using a b c
      profile_success [where rEmail = contains_at and put = put_ok and data = ana
        and w = world0 and u = user1 and v = "as_object ana"]
    by (simp add: world0_def user1_def)
qed




section \<open>The avatar update\<close>

text \<open>
  Claim C1, as stated: with the camera permission granted and read-storage denied, the
  write-storage permission is never checked or requested. Lines 184 to 186 await the
  three helpers before line 188 looks at the first result: in the run below write-storage
  is checked and requested after read-storage was refused, and only then is the flow
  aborted.
\<close>

theorem write_storage_checked_after_denial_counterexample:
  "granted android_read_denied CAMERA \<and>
   \<not> granted android_read_denied READ_EXTERNAL_STORAGE \<and>
   new_effects world0 (handleUpdateAvatar android_read_denied world0) =
     [PermissionsAndroid_check CAMERA,
      PermissionsAndroid_check READ_EXTERNAL_STORAGE,
      PermissionsAndroid_request READ_EXTERNAL_STORAGE,
      PermissionsAndroid_check WRITE_EXTERNAL_STORAGE,
      PermissionsAndroid_request WRITE_EXTERNAL_STORAGE,
      Alert_alert (Permissao_necessaria READ_EXTERNAL_STORAGE)]"
  by (simp add: new_effects_def handleUpdateAvatar_def requestCameraPermissions_def
      requestReadStoragePermissions_def requestWriteStoragePermissions_def granted_def
      perform_def avatar_sample_defs)

text \<open>
  Claim C1, amended. On Android every run of the flow first checks each permission, and
  requests each one not already held, in the order camera, read-storage, write-storage,
  whatever the answers are. Only then are the answers looked at: when all three are
  granted the image chooser is invoked next; when at least one is not, the flow shows one
  notification, for the first permission in that order that was not granted, and stops
  without invoking the image chooser.
\<close>

theorem all_permissions_checked_before_denial:
  assumes "Platform_OS env = ''android''"
  shows "\<exists>rest.
           new_effects w (handleUpdateAvatar env w) =
             permission_effects env CAMERA @ permission_effects env READ_EXTERNAL_STORAGE @
             permission_effects env WRITE_EXTERNAL_STORAGE @ rest \<and>
           (if granted env CAMERA \<and> granted env READ_EXTERNAL_STORAGE \<and>
               granted env WRITE_EXTERNAL_STORAGE
            then take 1 rest = [ImagePicker_showImagePicker]
            else rest =
                   [Alert_alert (Permissao_necessaria
                      (if \<not> granted env CAMERA then CAMERA
                       else if \<not> granted env READ_EXTERNAL_STORAGE then READ_EXTERNAL_STORAGE
                       else WRITE_EXTERNAL_STORAGE))] \<and>
                 ImagePicker_showImagePicker \<notin>
                   set (new_effects w (handleUpdateAvatar env w)))"
proof (cases "granted env CAMERA \<and> granted env READ_EXTERNAL_STORAGE \<and>
    granted env WRITE_EXTERNAL_STORAGE")
  case True
  with assms have "new_effects w (handleUpdateAvatar env w) =
      permission_effects env CAMERA @ permission_effects env READ_EXTERNAL_STORAGE @
      permission_effects env WRITE_EXTERNAL_STORAGE @ chooser_effects env"
    by (simp add: new_effects_android)
  moreover have "take 1 (chooser_effects env) = [ImagePicker_showImagePicker]"
    by (simp add: chooser_effects_def)
  ultimately show ?thesis
    using True by auto
next
  case False
  let ?alert = "Alert_alert (Permissao_necessaria
      (if \<not> granted env CAMERA then CAMERA
       else if \<not> granted env READ_EXTERNAL_STORAGE then READ_EXTERNAL_STORAGE
       else WRITE_EXTERNAL_STORAGE))"
  from assms False have eq: "new_effects w (handleUpdateAvatar env w) =
      permission_effects env CAMERA @ permission_effects env READ_EXTERNAL_STORAGE @
      permission_effects env WRITE_EXTERNAL_STORAGE @ [?alert]"
    by (auto simp add: new_effects_android)
  have "ImagePicker_showImagePicker \<notin> set (new_effects w (handleUpdateAvatar env w))"
    unfolding eq by simp
  with eq False show ?thesis
    by auto
qed

text \<open>The theorem at the run of the counterexample and at a run where all are granted.\<close>

theorem all_permissions_checked_before_denial_witness:
  "Platform_OS android_read_denied = ''android'' \<and>
   \<not> (granted android_read_denied CAMERA \<and> granted android_read_denied READ_EXTERNAL_STORAGE \<and>
      granted android_read_denied WRITE_EXTERNAL_STORAGE) \<and>
   new_effects world0 (handleUpdateAvatar android_read_denied world0) =
     [PermissionsAndroid_check CAMERA,
      PermissionsAndroid_check READ_EXTERNAL_STORAGE,
      PermissionsAndroid_request READ_EXTERNAL_STORAGE,
      PermissionsAndroid_check WRITE_EXTERNAL_STORAGE,
      PermissionsAndroid_request WRITE_EXTERNAL_STORAGE,
      Alert_alert (Permissao_necessaria READ_EXTERNAL_STORAGE)] \<and>
   Platform_OS android_all_granted = ''android'' \<and>
   granted android_all_granted CAMERA \<and> granted android_all_granted READ_EXTERNAL_STORAGE \<and>
   granted android_all_granted WRITE_EXTERNAL_STORAGE \<and>
   take 6 (new_effects world0 (handleUpdateAvatar android_all_granted world0)) =
     [PermissionsAndroid_check CAMERA,
      PermissionsAndroid_check READ_EXTERNAL_STORAGE,
      PermissionsAndroid_request READ_EXTERNAL_STORAGE,
      PermissionsAndroid_check WRITE_EXTERNAL_STORAGE,
      PermissionsAndroid_request WRITE_EXTERNAL_STORAGE,
      ImagePicker_showImagePicker]"
proof -
  have a: "Platform_OS android_read_denied = ''android''"
    "Platform_OS android_all_granted = ''android''"
    by (simp_all add: android_read_denied_def android_all_granted_def)
  have g: "granted android_read_denied CAMERA" "\<not> granted android_read_denied READ_EXTERNAL_STORAGE"
    "\<not> granted android_read_denied WRITE_EXTERNAL_STORAGE"
    "granted android_all_granted CAMERA" "granted android_all_granted READ_EXTERNAL_STORAGE"
    "granted android_all_granted WRITE_EXTERNAL_STORAGE"
    by (simp_all add: granted_def avatar_sample_defs)
  have p: "permission_effects android_read_denied CAMERA = [PermissionsAndroid_check CAMERA]"
    "permission_effects android_read_denied READ_EXTERNAL_STORAGE =
       [PermissionsAndroid_check READ_EXTERNAL_STORAGE,
        PermissionsAndroid_request READ_EXTERNAL_STORAGE]"
    "permission_effects android_read_denied WRITE_EXTERNAL_STORAGE =
       [PermissionsAndroid_check WRITE_EXTERNAL_STORAGE,
        PermissionsAndroid_request WRITE_EXTERNAL_STORAGE]"
    "permission_effects android_all_granted CAMERA = [PermissionsAndroid_check CAMERA]"
    "permission_effects android_all_granted READ_EXTERNAL_STORAGE =
       [PermissionsAndroid_check READ_EXTERNAL_STORAGE,
        PermissionsAndroid_request READ_EXTERNAL_STORAGE]"
    "permission_effects android_all_granted WRITE_EXTERNAL_STORAGE =
       [PermissionsAndroid_check WRITE_EXTERNAL_STORAGE,
        PermissionsAndroid_request WRITE_EXTERNAL_STORAGE]"
    by (simp_all add: permission_effects_def avatar_sample_defs)
  show ?thesis
    using a g p
      all_permissions_checked_before_denial [where env = android_read_denied and w = world0]
      all_permissions_checked_before_denial [where env = android_all_granted and w = world0]
    by auto
qed

text \<open>
  Claim C8. On a platform other than Android the first thing the flow does is invoke the
  image chooser, and no permission is checked or requested anywhere in the run.
\<close>

theorem no_permissions_off_android:
  assumes "Platform_OS env \<noteq> ''android''"
  shows "take 1 (new_effects w (handleUpdateAvatar env w)) = [ImagePicker_showImagePicker] \<and>
         filter is_permission_effect (new_effects w (handleUpdateAvatar env w)) = []"
  using assms
  by (simp add: new_effects_other chooser_effects_def split: sum.split)

text \<open>The theorem at a run on the other platform, with all the run's effects.\<close>

theorem no_permissions_off_android_witness:
  "Platform_OS ios_photo \<noteq> ''android'' \<and>
   new_effects world0 (handleUpdateAvatar ios_photo world0) =
     [ImagePicker_showImagePicker,
      Api_patch ''/users/avatar''
        [(''avatar'', \<lparr>part_type = Some ''image/jpeg'', part_name = Some ''a.jpg'',
                        part_uri = Some ''file:///tmp/a.jpg''\<rparr>)],
      UpdateUser user2] \<and>
   take 1 (new_effects world0 (handleUpdateAvatar ios_photo world0)) =
     [ImagePicker_showImagePicker] \<and>
   filter is_permission_effect (new_effects world0 (handleUpdateAvatar ios_photo world0)) = []"
proof -
  have a: "Platform_OS ios_photo \<noteq> ''android''"
    by (simp add: ios_photo_def)
  have b: "new_effects world0 (handleUpdateAvatar ios_photo world0) =
     [ImagePicker_showImagePicker,
      Api_patch ''/users/avatar''
        [(''avatar'', \<lparr>part_type = Some ''image/jpeg'', part_name = Some ''a.jpg'',
                        part_uri = Some ''file:///tmp/a.jpg''\<rparr>)],
      UpdateUser user2]"
    by (simp add: new_effects_def handleUpdateAvatar_def showImagePicker_def
        showImagePicker_callback_def avatar_body_def truthy_def updateUser_def perform_def
        ios_photo_def photo_def patch_ok_def world0_def)
  show ?thesis
    using a b no_permissions_off_android [where env = ios_photo and w = world0]
    by simp
qed

text \<open>
  Claim C9. When the chooser is invoked and reports cancellation, the run shows no
  notification and makes no network call; invoking the chooser is the last thing it
  does, and the session user is unchanged.
\<close>

theorem cancellation_is_silent:
  assumes "didCancel (response env)"
    and "ImagePicker_showImagePicker \<in> set (new_effects w (handleUpdateAvatar env w))"
  shows "filter is_alert (new_effects w (handleUpdateAvatar env w)) = [] \<and>
         filter is_network_call (new_effects w (handleUpdateAvatar env w)) = [] \<and>
         last (new_effects w (handleUpdateAvatar env w)) = ImagePicker_showImagePicker \<and>
         session_user (handleUpdateAvatar env w) = session_user w"
proof (cases "Platform_OS env = ''android''")
  case True
  with assms(2) have g: "granted env CAMERA" "granted env READ_EXTERNAL_STORAGE"
    "granted env WRITE_EXTERNAL_STORAGE"
    by (auto simp add: new_effects_android split: if_splits)
  from True g assms(1) show ?thesis
    by (simp add: new_effects_android chooser_effects_def session_user_handleUpdateAvatar
        session_user_showImagePicker)
next
  case False
  with assms(1) show ?thesis
    by (simp add: new_effects_other chooser_effects_def session_user_handleUpdateAvatar
        session_user_showImagePicker)
qed

text \<open>The theorem at a cancelled run.\<close>

theorem cancellation_is_silent_witness:
  "didCancel (response ios_cancelled) \<and>
   ImagePicker_showImagePicker \<in>
     set (new_effects world0 (handleUpdateAvatar ios_cancelled world0)) \<and>
   new_effects world0 (handleUpdateAvatar ios_cancelled world0) = [ImagePicker_showImagePicker] \<and>
   filter is_alert (new_effects world0 (handleUpdateAvatar ios_cancelled world0)) = [] \<and>
   filter is_network_call (new_effects world0 (handleUpdateAvatar ios_cancelled world0)) = [] \<and>
   session_user (handleUpdateAvatar ios_cancelled world0) = user0"
proof -
  have a: "didCancel (response ios_cancelled)"
    by (simp add: ios_cancelled_def)
  have b: "new_effects world0 (handleUpdateAvatar ios_cancelled world0) =
     [ImagePicker_showImagePicker]"
    by (simp add: new_effects_def handleUpdateAvatar_def showImagePicker_def
        showImagePicker_callback_def perform_def ios_cancelled_def ios_photo_def world0_def)
  have c: "ImagePicker_showImagePicker \<in>
     set (new_effects world0 (handleUpdateAvatar ios_cancelled world0))"
    by (simp add: b)
  show ?thesis
    using a b c cancellation_is_silent [OF a c]
    by (simp add: world0_def)
qed

text \<open>
  Claim C10. On every outcome other than a successful upload (a permission not granted
  on Android, a cancelled chooser, a chooser error, a rejected \<open>api.patch\<close>) the flow
  never calls \<open>updateUser\<close> and the session user is unchanged. The lemma
  \<open>avatar_upload_success\<close> above is the remaining outcome, in which it is called once.
\<close>

theorem updateUser_only_on_upload:
  assumes "(Platform_OS env = ''android'' \<and>
            \<not> (granted env CAMERA \<and> granted env READ_EXTERNAL_STORAGE \<and>
               granted env WRITE_EXTERNAL_STORAGE)) \<or>
           didCancel (response env) \<or>
           truthy (error (response env)) \<or>
           (\<exists>err. patch env ''/users/avatar'' (avatar_body (response env)) = Inl err)"
  shows "filter is_updateUser (new_effects w (handleUpdateAvatar env w)) = [] \<and>
         session_user (handleUpdateAvatar env w) = session_user w"
proof (cases "Platform_OS env = ''android''")
  case True
  with assms show ?thesis
    by (auto simp add: new_effects_android chooser_effects_def session_user_handleUpdateAvatar
        session_user_showImagePicker)
next
  case False
  with assms show ?thesis
    by (auto simp add: new_effects_other chooser_effects_def session_user_handleUpdateAvatar
        session_user_showImagePicker)
qed

text \<open>The theorem at one run for each of the four outcomes.\<close>

theorem updateUser_only_on_upload_witness:
  "Platform_OS android_read_denied = ''android'' \<and>
   \<not> granted android_read_denied READ_EXTERNAL_STORAGE \<and>
   session_user (handleUpdateAvatar android_read_denied world0) = user0 \<and>
   filter is_updateUser (new_effects world0 (handleUpdateAvatar android_read_denied world0)) = [] \<and>
   didCancel (response ios_cancelled) \<and>
   session_user (handleUpdateAvatar ios_cancelled world0) = user0 \<and>
   filter is_updateUser (new_effects world0 (handleUpdateAvatar ios_cancelled world0)) = [] \<and>
   truthy (error (response ios_chooser_error)) \<and>
   session_user (handleUpdateAvatar ios_chooser_error world0) = user0 \<and>
   filter is_updateUser (new_effects world0 (handleUpdateAvatar ios_chooser_error world0)) = [] \<and>
   patch ios_patch_rejected ''/users/avatar'' (avatar_body (response ios_patch_rejected)) =
     Inl ''Network Error'' \<and>
   session_user (handleUpdateAvatar ios_patch_rejected world0) = user0 \<and>
   filter is_updateUser (new_effects world0 (handleUpdateAvatar ios_patch_rejected world0)) = []"
proof -
  have a: "Platform_OS android_read_denied = ''android''"
    "\<not> granted android_read_denied READ_EXTERNAL_STORAGE"
    by (simp_all add: granted_def android_read_denied_def only_camera_held_def always_denied_def)
  have b: "didCancel (response ios_cancelled)"
    by (simp add: ios_cancelled_def)
  have c: "truthy (error (response ios_chooser_error))"
    by (simp add: ios_chooser_error_def truthy_def)
  have d: "patch ios_patch_rejected ''/users/avatar'' (avatar_body (response ios_patch_rejected)) =
     Inl ''Network Error''"
    by (simp add: ios_patch_rejected_def patch_rejected_def)
  have u: "session_user world0 = user0"
    by (simp add: world0_def)
  show ?thesis
    using a b c d u
      updateUser_only_on_upload [where env = android_read_denied and w = world0]
      updateUser_only_on_upload [where env = ios_cancelled and w = world0]
      updateUser_only_on_upload [where env = ios_chooser_error and w = world0]
      updateUser_only_on_upload [where env = ios_patch_rejected and w = world0]
    by simp
qed


end
